theory Spec2Isabelle
  imports Main
begin

section \<open>The authorization gate of cloudfunction\_auth\_example.js\<close>

text \<open>
  The module \<^verbatim>\<open>static-site/cloudfunction_auth_example.js\<close> has three functions with
  decision logic: \<^verbatim>\<open>getUserFromRequest\<close> (the identity resolver),
  \<^verbatim>\<open>isUserAuthorized\<close> (the allow-list checker) and \<^verbatim>\<open>checkAuthorization\<close>
  (the gate). They call three collaborators of the \<^verbatim>\<open>wx-server-sdk\<close> object
  \<^verbatim>\<open>cloud\<close>: \<^verbatim>\<open>cloud.getWXContext()\<close>, \<^verbatim>\<open>cloud.auth().verifyAccessToken(token)\<close>
  and \<^verbatim>\<open>cloud.database().collection(..).where(..).get()\<close>, and they log with
  \<^verbatim>\<open>console.error\<close>. The handler \<^verbatim>\<open>exports.main\<close> only consumes the result of
  \<^verbatim>\<open>checkAuthorization\<close> and is not part of the development.

  JavaScript strings are modelled as \<^typ>\<open>string\<close>, holding the UTF-8 bytes of the
  text. The string operations of the module (\<^verbatim>\<open>startsWith('Bearer ')\<close>,
  \<^verbatim>\<open>substring(7)\<close>, \<^verbatim>\<open>includes\<close>, the test for the empty string and the
  concatenation of a template literal) agree on UTF-8 bytes and on UTF-16 code units,
  since the prefix \<^verbatim>\<open>'Bearer '\<close> is seven ASCII characters. A value that is a string
  or \<^verbatim>\<open>undefined\<close>/\<^verbatim>\<open>null\<close> is a \<^typ>\<open>string option\<close>; such a value is truthy
  when it is a non-empty string.
\<close>

subsection \<open>Computations: a log of calls, and a value or a thrown error\<close>

datatype js_error = JsError string

text \<open>
  What a run does to the outside world, in order: the calls to the collaborators and the
  lines written with \<^verbatim>\<open>console.error\<close>. \<open>DbGet c oid st\<close> is the query
  \<^verbatim>\<open>db.collection(c).where({openid: oid, status: st}).get()\<close>.
\<close>

datatype io_event =
    GetWXContext
  | VerifyAccessToken string
  | DbGet string string string
  | ConsoleError string js_error

type_synonym 'a comp = "io_event list \<times> (js_error + 'a)"

definition ret :: "'a \<Rightarrow> 'a comp" where
  "ret x = ([], Inr x)"

definition call :: "io_event \<Rightarrow> (js_error + 'a) \<Rightarrow> 'a comp" where
  "call ev outcome = ([ev], outcome)"

definition console_error :: "string \<Rightarrow> js_error \<Rightarrow> unit comp" where
  "console_error label e = ([ConsoleError label e], Inr ())"

text \<open>Sequencing (\<^verbatim>\<open>await\<close>, \<^verbatim>\<open>;\<close>): a thrown error skips the rest.\<close>

definition and_then :: "'a comp \<Rightarrow> ('a \<Rightarrow> 'b comp) \<Rightarrow> 'b comp" where
  "and_then m f =
     (case m of
        (t, Inl e) \<Rightarrow> (t, Inl e)
      | (t, Inr x) \<Rightarrow> (case f x of (t', r) \<Rightarrow> (t @ t', r)))"

text \<open>\<^verbatim>\<open>try { m } catch (e) { h e }\<close>.\<close>

definition try_catch :: "'a comp \<Rightarrow> (js_error \<Rightarrow> 'a comp) \<Rightarrow> 'a comp" where
  "try_catch m h =
     (case m of
        (t, Inl e) \<Rightarrow> (case h e of (t', r) \<Rightarrow> (t @ t', r))
      | (t, Inr x) \<Rightarrow> (t, Inr x))"

text \<open>
  A block inside a function either executes a \<^verbatim>\<open>return\<close> or runs to its end, and the
  function goes on with the statement after it.
\<close>

datatype 'a flow = Returned 'a | Fallthrough

subsection \<open>Data\<close>

text \<open>The object \<^verbatim>\<open>cloud.getWXContext()\<close> returns; a field may be missing.\<close>

record wx_context =
  OPENID :: "string option"
  APPID :: "string option"

text \<open>What \<^verbatim>\<open>verifyAccessToken\<close> resolves to.\<close>

record auth_result =
  res_openid :: "string option"
  res_uid :: "string option"
  res_appid :: "string option"

text \<open>
  A document of the collection \<^verbatim>\<open>authorized_users\<close> (lines 212 to 219 of the module).
\<close>

record authorized_user =
  doc_openid :: string
  doc_nickname :: string
  doc_status :: string
  doc_createdAt :: string

text \<open>
  The response of \<^verbatim>\<open>get()\<close>: the field \<^verbatim>\<open>data\<close> is the array of the matching
  documents, or it is missing (\<open>None\<close>), which is the case that the guard
  \<^verbatim>\<open>userDoc.data &&\<close> of line 106 provides for. An array is truthy in JavaScript, the
  empty one too; a missing field reads as \<^verbatim>\<open>undefined\<close>, which is falsy.
\<close>

record query_result =
  data :: "authorized_user list option"

text \<open>
  The values \<^verbatim>\<open>isUserAuthorized\<close> can return: a boolean, or \<^verbatim>\<open>undefined\<close> when
  line 106 returns the missing \<^verbatim>\<open>userDoc.data\<close> itself. \<open>js_truthy\<close> is the test that
  \<^verbatim>\<open>!authorized\<close> of line 134 negates.
\<close>

datatype js_value = JsBool bool | JsUndefined

fun js_truthy :: "js_value \<Rightarrow> bool" where
  "js_truthy (JsBool b) = b"
| "js_truthy JsUndefined = False"

text \<open>The user object built by \<^verbatim>\<open>getUserFromRequest\<close>: \<^verbatim>\<open>{ openid, uid, appid }\<close>.\<close>

record user_info =
  openid :: string
  uid :: string
  appid :: "string option"

text \<open>
  The request event: the module reads only \<^verbatim>\<open>event.headers\<close>, which is missing or an
  object from header names to strings.
\<close>

record event =
  headers :: "(string \<rightharpoonup> string) option"

text \<open>The object \<^verbatim>\<open>checkAuthorization\<close> returns: \<^verbatim>\<open>{ authorized, user, error }\<close>.\<close>

record auth_check =
  authorized :: bool
  user :: "user_info option"
  error :: "string option"

text \<open>
  The free variables of the module: the constant \<^verbatim>\<open>AUTHORIZED_USERS\<close> and the behaviour
  of \<^verbatim>\<open>cloud\<close> during one request. \<open>database c\<close> is what a query of collection
  \<open>c\<close> meets: the error with which it fails (\<open>Inl\<close>), the documents of the collection
  (\<open>Inr (Some docs)\<close>), or a store whose response carries no \<^verbatim>\<open>data\<close>
  (\<open>Inr None\<close>). A response that is not an object at all makes line 106 throw inside the
  \<^verbatim>\<open>try\<close>, which is the first case.
\<close>

record module_env =
  AUTHORIZED_USERS :: "string list"
  getWXContext :: "js_error + wx_context option"
  verifyAccessToken :: "string \<Rightarrow> js_error + auth_result option"
  database :: "string \<Rightarrow> js_error + authorized_user list option"

text \<open>The list as the module has it (lines 23 to 27).\<close>

definition example_AUTHORIZED_USERS :: "string list" where
  "example_AUTHORIZED_USERS = [''oXXXXX1'', ''oXXXXX2'']"

subsection \<open>String operations\<close>

definition startsWith :: "string \<Rightarrow> string \<Rightarrow> bool" where
  "startsWith s p = (take (length p) s = p)"

definition substring :: "string \<Rightarrow> nat \<Rightarrow> string" where
  "substring s n = drop n s"

text \<open>\<^verbatim>\<open>a || b\<close> where \<open>a\<close> is a string or undefined and \<open>b\<close> a string.\<close>

definition or_string :: "string option \<Rightarrow> string \<Rightarrow> string" where
  "or_string a b = (case a of None \<Rightarrow> b | Some s \<Rightarrow> if s = [] then b else s)"

subsection \<open>The messages of the module\<close>

text \<open>
  The message texts of the module are Chinese; each is given by its UTF-8 bytes. In the
  order of the definitions below: the label logged when the token verification throws
  (line 69), the label logged when the outer \<^verbatim>\<open>try\<close> catches (line 76), the label
  logged when the store query throws (line 108), the \<^verbatim>\<open>error\<close> of the result when no
  identity was obtained (line 127), and the two parts of the template literal of line 138
  around \<^verbatim>\<open>${user.openid}\<close>.
\<close>

definition msg_token_failed :: string where
  "msg_token_failed =
     [CHR 0x54, CHR 0x6F, CHR 0x6B, CHR 0x65, CHR 0x6E, CHR 0x20, CHR 0xE9, CHR 0xAA,
      CHR 0x8C, CHR 0xE8, CHR 0xAF, CHR 0x81, CHR 0xE5, CHR 0xA4, CHR 0xB1, CHR 0xE8,
      CHR 0xB4, CHR 0xA5, CHR 0x3A]"

definition msg_get_user_failed :: string where
  "msg_get_user_failed =
     [CHR 0xE8, CHR 0x8E, CHR 0xB7, CHR 0xE5, CHR 0x8F, CHR 0x96, CHR 0xE7, CHR 0x94,
      CHR 0xA8, CHR 0xE6, CHR 0x88, CHR 0xB7, CHR 0xE4, CHR 0xBF, CHR 0xA1, CHR 0xE6,
      CHR 0x81, CHR 0xAF, CHR 0xE5, CHR 0xA4, CHR 0xB1, CHR 0xE8, CHR 0xB4, CHR 0xA5,
      CHR 0x3A]"

definition msg_query_failed :: string where
  "msg_query_failed =
     [CHR 0xE6, CHR 0x9F, CHR 0xA5, CHR 0xE8, CHR 0xAF, CHR 0xA2, CHR 0xE6, CHR 0x8E,
      CHR 0x88, CHR 0xE6, CHR 0x9D, CHR 0x83, CHR 0xE7, CHR 0x94, CHR 0xA8, CHR 0xE6,
      CHR 0x88, CHR 0xB7, CHR 0xE5, CHR 0xA4, CHR 0xB1, CHR 0xE8, CHR 0xB4, CHR 0xA5,
      CHR 0x3A]"

definition msg_no_identity :: string where
  "msg_no_identity =
     [CHR 0xE6, CHR 0x9C, CHR 0xAA, CHR 0xE8, CHR 0x8E, CHR 0xB7, CHR 0xE5, CHR 0x8F,
      CHR 0x96, CHR 0xE5, CHR 0x88, CHR 0xB0, CHR 0xE7, CHR 0x94, CHR 0xA8, CHR 0xE6,
      CHR 0x88, CHR 0xB7, CHR 0xE8, CHR 0xBA, CHR 0xAB, CHR 0xE4, CHR 0xBB, CHR 0xBD,
      CHR 0xE4, CHR 0xBF, CHR 0xA1, CHR 0xE6, CHR 0x81, CHR 0xAF, CHR 0xEF, CHR 0xBC,
      CHR 0x8C, CHR 0xE8, CHR 0xAF, CHR 0xB7, CHR 0xE5, CHR 0x85, CHR 0x88, CHR 0xE5,
      CHR 0xAE, CHR 0x8C, CHR 0xE6, CHR 0x88, CHR 0x90, CHR 0xE5, CHR 0xBE, CHR 0xAE,
      CHR 0xE4, CHR 0xBF, CHR 0xA1, CHR 0xE7, CHR 0x99, CHR 0xBB, CHR 0xE5, CHR 0xBD,
      CHR 0x95]"

definition msg_user_prefix :: string where
  "msg_user_prefix = [CHR 0xE7, CHR 0x94, CHR 0xA8, CHR 0xE6, CHR 0x88, CHR 0xB7, CHR 0x20]"

definition msg_not_authorized_suffix :: string where
  "msg_not_authorized_suffix =
     [CHR 0x20, CHR 0xE6, CHR 0x9C, CHR 0xAA, CHR 0xE6, CHR 0x8E, CHR 0x88, CHR 0xE6,
      CHR 0x9D, CHR 0x83, CHR 0xE8, CHR 0xAE, CHR 0xBF, CHR 0xE9, CHR 0x97, CHR 0xAE,
      CHR 0xE6, CHR 0xAD, CHR 0xA4, CHR 0xE5, CHR 0xBA, CHR 0x94, CHR 0xE7, CHR 0x94,
      CHR 0xA8]"

subsection \<open>getUserFromRequest (lines 34 to 79)\<close>

text \<open>
  Lines 60 to 67, the body of the inner \<^verbatim>\<open>try\<close>: the verifier is called, and a truthy
  result with a truthy \<^verbatim>\<open>openid\<close> is returned as the user.
\<close>

definition verifyToken :: "module_env \<Rightarrow> string \<Rightarrow> user_info option flow comp" where
  "verifyToken env token =
     and_then (call (VerifyAccessToken token) (verifyAccessToken env token)) (\<lambda>authResult.
       case authResult of
         None \<Rightarrow> ret Fallthrough
       | Some r \<Rightarrow>
           (case res_openid r of
              None \<Rightarrow> ret Fallthrough
            | Some oid \<Rightarrow>
                if oid = [] then ret Fallthrough
                else ret (Returned (Some \<lparr>openid = oid, uid = or_string (res_uid r) oid,
                                           appid = res_appid r\<rparr>))))"

text \<open>
  Lines 49 and 50: \<^verbatim>\<open>event.headers || {}\<close>, then
  \<^verbatim>\<open>headers['authorization'] || headers['Authorization'] || ''\<close>.
\<close>

definition authHeader :: "event \<Rightarrow> string" where
  "authHeader event =
     (let hdrs = (case headers event of None \<Rightarrow> Map.empty | Some h \<Rightarrow> h)
      in or_string (hdrs ''authorization'') (or_string (hdrs ''Authorization'') []))"

text \<open>Lines 49 to 74: the path through the \<^verbatim>\<open>Authorization\<close> header.\<close>

definition fromAuthorizationHeader :: "module_env \<Rightarrow> event \<Rightarrow> user_info option comp" where
  "fromAuthorizationHeader env event =
     (if startsWith (authHeader event) ''Bearer '' then
        (let token = substring (authHeader event) 7
         in and_then
              (try_catch (verifyToken env token)
                 (\<lambda>tokenError.
                    and_then (console_error msg_token_failed tokenError)
                      (\<lambda>_. ret (Returned None))))
              (\<lambda>fl. case fl of Returned u \<Rightarrow> ret u | Fallthrough \<Rightarrow> ret None))
      else ret None)"

definition getUserFromRequest :: "module_env \<Rightarrow> event \<Rightarrow> user_info option comp" where
  "getUserFromRequest env event =
     try_catch
       (and_then (call GetWXContext (getWXContext env)) (\<lambda>wxContext.
          case wxContext of
            None \<Rightarrow> fromAuthorizationHeader env event
          | Some ctx \<Rightarrow>
              (case OPENID ctx of
                 None \<Rightarrow> fromAuthorizationHeader env event
               | Some oid \<Rightarrow>
                   if oid = [] then fromAuthorizationHeader env event
                   else ret (Some \<lparr>openid = oid, uid = oid, appid = APPID ctx\<rparr>))))
       (\<lambda>err. and_then (console_error msg_get_user_failed err) (\<lambda>_. ret None))"

subsection \<open>isUserAuthorized (lines 86 to 112)\<close>

text \<open>
  \<^verbatim>\<open>db.collection(c).where({openid: oid, status: st}).get()\<close>: the error of the store,
  or a response; its \<^verbatim>\<open>data\<close> are the documents of the collection whose two fields
  equal the given values, when the store delivers any.
\<close>

definition collection_where_get ::
    "module_env \<Rightarrow> string \<Rightarrow> string \<Rightarrow> string \<Rightarrow> query_result comp" where
  "collection_where_get env c oid st =
     call (DbGet c oid st)
       (case database env c of
          Inl e \<Rightarrow> Inl e
        | Inr None \<Rightarrow> Inr \<lparr>data = None\<rparr>
        | Inr (Some docs) \<Rightarrow>
            Inr \<lparr>data =
                  Some (filter (\<lambda>d. doc_openid d = oid \<and> doc_status d = st) docs)\<rparr>)"

text \<open>
  The argument is a string, or \<open>None\<close> for \<^verbatim>\<open>null\<close> and \<^verbatim>\<open>undefined\<close>. Line 106
  returns \<^verbatim>\<open>userDoc.data && userDoc.data.length > 0\<close>: the falsy \<^verbatim>\<open>userDoc.data\<close>
  itself when the field is missing, and the comparison when it is an array.
\<close>

definition isUserAuthorized :: "module_env \<Rightarrow> string option \<Rightarrow> js_value comp" where
  "isUserAuthorized env openid_arg =
     (case openid_arg of
        None \<Rightarrow> ret (JsBool False)
      | Some oid \<Rightarrow>
          if oid = [] then ret (JsBool False)
          else if oid \<in> set (AUTHORIZED_USERS env) then ret (JsBool True)
          else
            try_catch
              (and_then (collection_where_get env ''authorized_users'' oid ''active'')
                 (\<lambda>userDoc.
                    case data userDoc of
                      None \<Rightarrow> ret JsUndefined
                    | Some docs \<Rightarrow> ret (JsBool (0 < length docs))))
              (\<lambda>dbError.
                 and_then (console_error msg_query_failed dbError)
                   (\<lambda>_. ret (JsBool (oid \<in> set (AUTHORIZED_USERS env))))))"

subsection \<open>checkAuthorization (lines 119 to 147)\<close>

definition no_identity :: auth_check where
  "no_identity = \<lparr>authorized = False, user = None, error = Some msg_no_identity\<rparr>"

definition checkAuthorization :: "module_env \<Rightarrow> event \<Rightarrow> auth_check comp" where
  "checkAuthorization env event =
     and_then (getUserFromRequest env event) (\<lambda>usr.
       case usr of
         None \<Rightarrow> ret no_identity
       | Some u \<Rightarrow>
           if openid u = [] then ret no_identity
           else
             and_then (isUserAuthorized env (Some (openid u))) (\<lambda>ok.
               if \<not> js_truthy ok then
                 ret \<lparr>authorized = False, user = Some u,
                      error = Some (msg_user_prefix @ openid u @ msg_not_authorized_suffix)\<rparr>
               else ret \<lparr>authorized = True, user = Some u, error = None\<rparr>))"

subsection \<open>Notions of the specification\<close>

text \<open>
  The subject identifier of a usable trusted context: \<^verbatim>\<open>cloud.getWXContext()\<close> returns
  an object whose \<^verbatim>\<open>OPENID\<close> is a non-empty string. \<open>None\<close> when the call throws,
  returns nothing, or returns a context without such an identifier.
\<close>

definition trusted_openid :: "module_env \<Rightarrow> string option" where
  "trusted_openid env =
     (case getWXContext env of
        Inl e \<Rightarrow> None
      | Inr None \<Rightarrow> None
      | Inr (Some ctx) \<Rightarrow>
          (case OPENID ctx of
             None \<Rightarrow> None
           | Some oid \<Rightarrow> if oid = [] then None else Some oid))"

text \<open>
  The verdict as section 4.3 of the specification words it, from the identity the
  resolver yields and the answer of the checker, with the two reason strings of the
  specification.
\<close>

definition spec_verdict :: "user_info option \<Rightarrow> bool \<Rightarrow> auth_check" where
  "spec_verdict identity ok =
     (case identity of
        None \<Rightarrow>
          \<lparr>authorized = False, user = None,
           error = Some ''identity could not be established''\<rparr>
      | Some i \<Rightarrow>
          if \<not> ok then
            \<lparr>authorized = False, user = Some i,
             error = Some ''subject not on authorized list''\<rparr>
          else \<lparr>authorized = True, user = Some i, error = None\<rparr>)"

text \<open>The same event with no authorization header at all.\<close>

definition remove_authorization :: "event \<Rightarrow> event" where
  "remove_authorization ev =
     ev\<lparr>headers :=
          (case headers ev of
             None \<Rightarrow> None
           | Some h \<Rightarrow> Some (h(''authorization'' := None, ''Authorization'' := None)))\<rparr>"

subsection \<open>Example environments and events\<close>

text \<open>
  A store with an active record for \<open>oB\<close> and a revoked one for \<open>oC\<close>; a verifier
  that knows three tokens and throws on every other one; no trusted context.
\<close>

definition ex_docs :: "authorized_user list" where
  "ex_docs =
     [\<lparr>doc_openid = ''oB'', doc_nickname = ''B'', doc_status = ''active'',
       doc_createdAt = ''2024-01-01T00:00:00.000Z''\<rparr>,
      \<lparr>doc_openid = ''oC'', doc_nickname = ''C'', doc_status = ''revoked'',
       doc_createdAt = ''2024-01-01T00:00:00.000Z''\<rparr>]"

definition ex_verifier :: "string \<Rightarrow> js_error + auth_result option" where
  "ex_verifier token =
     (if token = ''tokB'' then
        Inr (Some \<lparr>res_openid = Some ''oB'', res_uid = Some ''uB'', res_appid = None\<rparr>)
      else if token = ''tokC'' then
        Inr (Some \<lparr>res_openid = Some ''oC'', res_uid = None, res_appid = None\<rparr>)
      else if token = ''tokD'' then
        Inr (Some \<lparr>res_openid = Some ''oD'', res_uid = None, res_appid = None\<rparr>)
      else Inl (JsError ''invalid token''))"

definition ex_env :: module_env where
  "ex_env =
     \<lparr>AUTHORIZED_USERS = example_AUTHORIZED_USERS,
      getWXContext = Inr (Some \<lparr>OPENID = None, APPID = None\<rparr>),
      verifyAccessToken = ex_verifier,
      database = (\<lambda>c. if c = ''authorized_users'' then Inr (Some ex_docs) else Inr (Some []))\<rparr>"

text \<open>The same with a trusted context for the subject \<open>oid\<close>.\<close>

definition ex_env_trusted :: "string \<Rightarrow> module_env" where
  "ex_env_trusted oid =
     ex_env\<lparr>getWXContext := Inr (Some \<lparr>OPENID = Some oid, APPID = Some ''wx0''\<rparr>)\<rparr>"

text \<open>The same with a store that cannot be reached.\<close>

definition ex_env_store_down :: module_env where
  "ex_env_store_down = ex_env\<lparr>database := (\<lambda>c. Inl (JsError ''ECONNREFUSED''))\<rparr>"

text \<open>The same with a store whose responses carry no \<^verbatim>\<open>data\<close>.\<close>

definition ex_env_no_data :: module_env where
  "ex_env_no_data = ex_env\<lparr>database := (\<lambda>c. Inr None)\<rparr>"

text \<open>The same with every collaborator throwing.\<close>

definition ex_env_all_throw :: module_env where
  "ex_env_all_throw =
     ex_env\<lparr>getWXContext := Inl (JsError ''no context''),
            verifyAccessToken := (\<lambda>t. Inl (JsError ''verifier down'')),
            database := (\<lambda>c. Inl (JsError ''ECONNREFUSED''))\<rparr>"

text \<open>The same with a verifier that resolves every token, the empty one too, to \<open>oB\<close>.\<close>

definition ex_env_lenient :: module_env where
  "ex_env_lenient =
     ex_env\<lparr>verifyAccessToken :=
       (\<lambda>t. Inr (Some \<lparr>res_openid = Some ''oB'', res_uid = None, res_appid = None\<rparr>))\<rparr>"

text \<open>An event whose header map has the one entry \<open>key: value\<close>, and one without headers.\<close>

definition header_event :: "string \<Rightarrow> string \<Rightarrow> event" where
  "header_event key val = \<lparr>headers = Some [key \<mapsto> val]\<rparr>"

definition no_header_event :: event where
  "no_header_event = \<lparr>headers = None\<rparr>"

section \<open>Properties\<close>

subsection \<open>Auxiliary facts\<close>

lemmas comp_defs = ret_def call_def console_error_def and_then_def try_catch_def

lemmas ex_defs =
  ex_env_def ex_env_trusted_def ex_env_store_down_def ex_env_no_data_def
  ex_env_all_throw_def ex_env_lenient_def
  ex_verifier_def ex_docs_def example_AUTHORIZED_USERS_def header_event_def
  no_header_event_def

lemmas fun_defs =
  getUserFromRequest_def fromAuthorizationHeader_def verifyToken_def authHeader_def
  isUserAuthorized_def collection_where_get_def checkAuthorization_def no_identity_def
  startsWith_def substring_def or_string_def trusted_openid_def

lemma fromAuthorizationHeader_returns:
  "\<exists>t v. fromAuthorizationHeader env ev = (t, Inr v)"
  unfolding fromAuthorizationHeader_def verifyToken_def comp_defs
  by (auto simp: Let_def split: sum.splits option.splits flow.splits prod.splits)

lemma fromAuthorizationHeader_openid:
  "fromAuthorizationHeader env ev = (t, Inr (Some u)) \<Longrightarrow> openid u \<noteq> []"
  unfolding fromAuthorizationHeader_def verifyToken_def comp_defs
  by (auto simp: Let_def split: sum.splits option.splits flow.splits prod.splits if_splits)

lemma getUserFromRequest_returns:
  "\<exists>t v. getUserFromRequest env ev = (t, Inr v)"
  using fromAuthorizationHeader_returns[of env ev]
  unfolding getUserFromRequest_def comp_defs
  by (auto split: sum.splits option.splits prod.splits)

lemma getUserFromRequest_openid:
  "getUserFromRequest env ev = (t, Inr (Some u)) \<Longrightarrow> openid u \<noteq> []"
  using fromAuthorizationHeader_openid[of env ev]
  unfolding getUserFromRequest_def comp_defs
  by (auto split: sum.splits option.splits prod.splits if_splits)

lemma getUserFromRequest_no_context:
  "trusted_openid env = None \<Longrightarrow> getWXContext env = Inr c \<Longrightarrow>
   getUserFromRequest env ev =
     (GetWXContext # fst (fromAuthorizationHeader env ev),
      snd (fromAuthorizationHeader env ev))"
  using fromAuthorizationHeader_returns[of env ev]
  unfolding getUserFromRequest_def trusted_openid_def comp_defs
  by (auto split: sum.splits option.splits prod.splits if_splits)

lemma getUserFromRequest_context_throws:
  "getWXContext env = Inl e \<Longrightarrow>
   getUserFromRequest env ev = ([GetWXContext, ConsoleError msg_get_user_failed e], Inr None)"
  unfolding getUserFromRequest_def comp_defs by simp

lemma isUserAuthorized_returns:
  "\<exists>t b. isUserAuthorized env a = (t, Inr b)"
  unfolding isUserAuthorized_def collection_where_get_def comp_defs
  by (auto split: sum.splits option.splits prod.splits)

lemma isUserAuthorized_static_miss:
  "oid \<noteq> [] \<Longrightarrow> oid \<notin> set (AUTHORIZED_USERS env) \<Longrightarrow>
   isUserAuthorized env (Some oid) =
     (case database env ''authorized_users'' of
        Inl e \<Rightarrow>
          ([DbGet ''authorized_users'' oid ''active'', ConsoleError msg_query_failed e],
           Inr (JsBool False))
      | Inr None \<Rightarrow> ([DbGet ''authorized_users'' oid ''active''], Inr JsUndefined)
      | Inr (Some docs) \<Rightarrow>
          ([DbGet ''authorized_users'' oid ''active''],
           Inr (JsBool (\<exists>d \<in> set docs. doc_openid d = oid \<and> doc_status d = ''active''))))"
  by (auto simp: isUserAuthorized_def collection_where_get_def comp_defs filter_empty_conv
      split: sum.splits option.splits)

lemma fromAuthorizationHeader_no_prefix:
  "\<not> startsWith (authHeader ev) ''Bearer '' \<Longrightarrow>
   fromAuthorizationHeader env ev = ([], Inr None)"
  by (simp add: fromAuthorizationHeader_def ret_def)

lemma fromAuthorizationHeader_prefix:
  "startsWith (authHeader ev) ''Bearer '' \<Longrightarrow>
   \<exists>t. fst (fromAuthorizationHeader env ev) =
     VerifyAccessToken (substring (authHeader ev) 7) # t"
  unfolding fromAuthorizationHeader_def verifyToken_def comp_defs
  by (auto simp: Let_def split: sum.splits option.splits flow.splits prod.splits)

lemma fromAuthorizationHeader_rejected:
  "authHeader ev = ''Bearer '' @ token \<Longrightarrow> verifyAccessToken env token = Inl e \<Longrightarrow>
   fromAuthorizationHeader env ev =
     ([VerifyAccessToken token, ConsoleError msg_token_failed e], Inr None)"
  by (simp add: fromAuthorizationHeader_def verifyToken_def comp_defs startsWith_def
      substring_def)

lemma fromAuthorizationHeader_verifier_throws:
  "verifyAccessToken env (substring (authHeader ev) 7) = Inl e \<Longrightarrow>
   snd (fromAuthorizationHeader env ev) = Inr None"
  by (simp add: fromAuthorizationHeader_def verifyToken_def comp_defs)

lemma fromAuthorizationHeader_success:
  "snd (fromAuthorizationHeader env ev) = Inr (Some u) \<Longrightarrow>
   startsWith (authHeader ev) ''Bearer '' \<and> openid u \<noteq> [] \<and>
   (\<exists>r. verifyAccessToken env (substring (authHeader ev) 7) = Inr (Some r) \<and>
        res_openid r = Some (openid u))"
  unfolding fromAuthorizationHeader_def verifyToken_def comp_defs
  by (auto simp: Let_def split: sum.splits option.splits flow.splits prod.splits if_splits)

lemma fromAuthorizationHeader_authHeader:
  "authHeader ev = authHeader ev' \<Longrightarrow>
   fromAuthorizationHeader env ev = fromAuthorizationHeader env ev'"
  by (simp add: fromAuthorizationHeader_def)

lemma getUserFromRequest_authHeader:
  "authHeader ev = authHeader ev' \<Longrightarrow> getUserFromRequest env ev = getUserFromRequest env ev'"
proof -
  assume "authHeader ev = authHeader ev'"
  then have eq: "fromAuthorizationHeader env ev = fromAuthorizationHeader env ev'"
    by (rule fromAuthorizationHeader_authHeader)
  show ?thesis unfolding getUserFromRequest_def eq ..
qed

lemma authHeader_remove_authorization: "authHeader (remove_authorization ev) = []"
  by (simp add: authHeader_def remove_authorization_def or_string_def split: option.splits)

lemma checkAuthorization_cases:
  "(\<exists>t. getUserFromRequest env ev = (t, Inr None) \<and>
         checkAuthorization env ev = (t, Inr no_identity))
   \<or> (\<exists>t t' u. getUserFromRequest env ev = (t, Inr (Some u)) \<and>
         (\<exists>r. isUserAuthorized env (Some (openid u)) = (t', Inr r) \<and> \<not> js_truthy r) \<and>
         checkAuthorization env ev =
           (t @ t', Inr \<lparr>authorized = False, user = Some u,
                         error = Some (msg_user_prefix @ openid u @ msg_not_authorized_suffix)\<rparr>))
   \<or> (\<exists>t t' u. getUserFromRequest env ev = (t, Inr (Some u)) \<and>
         isUserAuthorized env (Some (openid u)) = (t', Inr (JsBool True)) \<and>
         checkAuthorization env ev =
           (t @ t', Inr \<lparr>authorized = True, user = Some u, error = None\<rparr>))"
proof -
  obtain t v where r: "getUserFromRequest env ev = (t, Inr v)"
    using getUserFromRequest_returns by blast
  show ?thesis
  proof (cases v)
    case None
    with r show ?thesis by (simp add: checkAuthorization_def comp_defs)
  next
    case (Some u)
    with r have ne: "openid u \<noteq> []" using getUserFromRequest_openid by blast
    obtain t' b where c: "isUserAuthorized env (Some (openid u)) = (t', Inr b)"
      using isUserAuthorized_returns by blast
    show ?thesis using r Some ne c
      by (cases b rule: js_truthy.cases) (simp_all add: checkAuthorization_def comp_defs)
  qed
qed

lemma checkAuthorization_unresolved:
  "snd (getUserFromRequest env ev) = Inr None \<Longrightarrow>
   snd (checkAuthorization env ev) = Inr no_identity"
  using checkAuthorization_cases[of env ev] by auto

subsection \<open>The gate: checkAuthorization\<close>

text \<open>
  Claim C1, as the specification states it: the gate returns one of three verdicts, and the
  reason of a resolved but rejected subject is the fixed string
  \<^verbatim>\<open>subject not on authorized list\<close>. The module does not do that: for the token of
  the subject \<open>oD\<close>, which the resolver resolves and the checker rejects, the
  \<^verbatim>\<open>error\<close> of the result is not the string of the specification.
\<close>

theorem checkAuthorization_reason_counterexample:
  "snd (getUserFromRequest ex_env (header_event ''authorization'' ''Bearer tokD''))
     = Inr (Some \<lparr>openid = ''oD'', uid = ''oD'', appid = None\<rparr>)
   \<and> snd (isUserAuthorized ex_env (Some ''oD'')) = Inr (JsBool False)
   \<and> snd (checkAuthorization ex_env (header_event ''authorization'' ''Bearer tokD''))
     \<noteq> Inr (spec_verdict (Some \<lparr>openid = ''oD'', uid = ''oD'', appid = None\<rparr>) False)"
  by (simp add: fun_defs ex_defs comp_defs spec_verdict_def msg_user_prefix_def)

text \<open>
  Claim C1, amended: for every environment and event the gate returns, without throwing,
  exactly one of three verdicts. If the resolver yields no identity: not authorized, no
  user, and the fixed message of line 127. If the resolver yields a user and the checker
  answers false (or another falsy value): not authorized, that user, and the message of
  line 138, which is built around the \<^verbatim>\<open>openid\<close> of the user. Otherwise, the checker
  having answered true: authorized, that user, no error.
\<close>

theorem checkAuthorization_three_verdicts:
  "(snd (getUserFromRequest env ev) = Inr None \<and>
      snd (checkAuthorization env ev) = Inr no_identity)
   \<or> (\<exists>u. snd (getUserFromRequest env ev) = Inr (Some u) \<and>
         (\<exists>r. snd (isUserAuthorized env (Some (openid u))) = Inr r \<and> \<not> js_truthy r) \<and>
         snd (checkAuthorization env ev) =
           Inr \<lparr>authorized = False, user = Some u,
                error = Some (msg_user_prefix @ openid u @ msg_not_authorized_suffix)\<rparr>)
   \<or> (\<exists>u. snd (getUserFromRequest env ev) = Inr (Some u) \<and>
         snd (isUserAuthorized env (Some (openid u))) = Inr (JsBool True) \<and>
         snd (checkAuthorization env ev) =
           Inr \<lparr>authorized = True, user = Some u, error = None\<rparr>)"
  using checkAuthorization_cases[of env ev] by fastforce

text \<open>
  Claim C2: for every event and every behaviour of the collaborators the gate returns a
  verdict, and that verdict is never authorized without a user; when it is not authorized
  it carries an error message; when it is authorized it carries no error message and it
  carries a user.
\<close>

theorem verdict_invariant:
  "\<exists>t v. checkAuthorization env ev = (t, Inr v) \<and>
     \<not> (authorized v \<and> user v = None) \<and>
     (\<not> authorized v \<longrightarrow> error v \<noteq> None) \<and>
     (authorized v \<longrightarrow> error v = None \<and> user v \<noteq> None)"
  using checkAuthorization_cases[of env ev] by (auto simp: no_identity_def)

theorem verdict_invariant_witness:
  "(\<exists>t v. checkAuthorization (ex_env_trusted ''oXXXXX1'') no_header_event = (t, Inr v) \<and>
      authorized v \<and> error v = None \<and> user v \<noteq> None)
   \<and> (\<exists>t v. checkAuthorization ex_env no_header_event = (t, Inr v) \<and>
      \<not> authorized v \<and> error v \<noteq> None)"
  using verdict_invariant[of "ex_env_trusted ''oXXXXX1''" no_header_event]
    verdict_invariant[of ex_env no_header_event]
  by (simp add: fun_defs ex_defs comp_defs)

text \<open>
  Claim C7: with no usable trusted context, an event whose authorization header is
  \<^verbatim>\<open>Bearer <token>\<close> with a token on which the verifier throws gets the same
  verdict as the same event without any authorization header: not authorized, no user,
  and the message of line 127.
\<close>

theorem rejected_token_as_no_header:
  "trusted_openid env = None \<Longrightarrow> authHeader ev = ''Bearer '' @ token \<Longrightarrow>
   verifyAccessToken env token = Inl e \<Longrightarrow>
   snd (checkAuthorization env ev) = snd (checkAuthorization env (remove_authorization ev))
   \<and> snd (checkAuthorization env ev) = Inr no_identity"
proof -
  assume n: "trusted_openid env = None" and h: "authHeader ev = ''Bearer '' @ token"
    and r: "verifyAccessToken env token = Inl e"
  have np: "\<not> startsWith (authHeader (remove_authorization ev)) ''Bearer ''"
    by (simp add: authHeader_remove_authorization startsWith_def)
  have "snd (getUserFromRequest env ev) = Inr None
      \<and> snd (getUserFromRequest env (remove_authorization ev)) = Inr None"
  proof (cases "getWXContext env")
    case (Inl x)
    then show ?thesis by (simp add: getUserFromRequest_context_throws)
  next
    case (Inr c)
    show ?thesis
      using getUserFromRequest_no_context[OF n Inr]
        fromAuthorizationHeader_rejected[OF h r]
        fromAuthorizationHeader_no_prefix[OF np, of env]
      by simp
  qed
  then show ?thesis using checkAuthorization_unresolved by simp
qed

theorem rejected_token_as_no_header_witness:
  "trusted_openid ex_env = None
   \<and> authHeader (header_event ''Authorization'' ''Bearer expired'') = ''Bearer '' @ ''expired''
   \<and> verifyAccessToken ex_env ''expired'' = Inl (JsError ''invalid token'')
   \<and> remove_authorization (header_event ''Authorization'' ''Bearer expired'')
       = \<lparr>headers = Some Map.empty\<rparr>
   \<and> snd (checkAuthorization ex_env (header_event ''Authorization'' ''Bearer expired''))
       = snd (checkAuthorization ex_env \<lparr>headers = Some Map.empty\<rparr>)
   \<and> snd (checkAuthorization ex_env (header_event ''Authorization'' ''Bearer expired''))
       = Inr \<lparr>authorized = False, user = None, error = Some msg_no_identity\<rparr>"
proof -
  have a: "trusted_openid ex_env = None" by (simp add: fun_defs ex_defs)
  have b: "authHeader (header_event ''Authorization'' ''Bearer expired'')
      = ''Bearer '' @ ''expired''"
    by (simp add: fun_defs ex_defs)
  have c: "verifyAccessToken ex_env ''expired'' = Inl (JsError ''invalid token'')"
    by (simp add: ex_defs)
  have d: "remove_authorization (header_event ''Authorization'' ''Bearer expired'')
      = \<lparr>headers = Some Map.empty\<rparr>"
    by (simp add: remove_authorization_def header_event_def)
  show ?thesis
    using a b c d rejected_token_as_no_header[OF a b c] unfolding d no_identity_def
    by blast
qed

text \<open>
  Claim C10: when the resolver yields a user and the checker rejects it, the gate
  returns a verdict that is not authorized and whose \<^verbatim>\<open>error\<close> is the text of line 138
  with the \<^verbatim>\<open>openid\<close> of that user inside; two rejected users with different
  \<^verbatim>\<open>openid\<close> get different messages.
\<close>

theorem not_authorized_reason_echoes_openid:
  "snd (getUserFromRequest env ev) = Inr (Some u) \<Longrightarrow>
   snd (isUserAuthorized env (Some (openid u))) = Inr r \<Longrightarrow> \<not> js_truthy r \<Longrightarrow>
   snd (getUserFromRequest env' ev') = Inr (Some u') \<Longrightarrow>
   snd (isUserAuthorized env' (Some (openid u'))) = Inr r' \<Longrightarrow> \<not> js_truthy r' \<Longrightarrow>
   \<exists>t v t' v'.
     checkAuthorization env ev = (t, Inr v) \<and> checkAuthorization env' ev' = (t', Inr v')
     \<and> \<not> authorized v
     \<and> error v = Some (msg_user_prefix @ openid u @ msg_not_authorized_suffix)
     \<and> (openid u \<noteq> openid u' \<longrightarrow> error v \<noteq> error v')"
  using checkAuthorization_cases[of env ev] checkAuthorization_cases[of env' ev']
  by auto

theorem not_authorized_reason_echoes_openid_witness:
  "snd (getUserFromRequest ex_env (header_event ''authorization'' ''Bearer tokC''))
     = Inr (Some \<lparr>openid = ''oC'', uid = ''oC'', appid = None\<rparr>)
   \<and> snd (isUserAuthorized ex_env (Some ''oC'')) = Inr (JsBool False)
   \<and> snd (getUserFromRequest ex_env (header_event ''authorization'' ''Bearer tokD''))
     = Inr (Some \<lparr>openid = ''oD'', uid = ''oD'', appid = None\<rparr>)
   \<and> snd (isUserAuthorized ex_env (Some ''oD'')) = Inr (JsBool False)
   \<and> (\<exists>t v t' v'.
        checkAuthorization ex_env (header_event ''authorization'' ''Bearer tokC'') = (t, Inr v)
        \<and> checkAuthorization ex_env (header_event ''authorization'' ''Bearer tokD'')
            = (t', Inr v')
        \<and> error v = Some (msg_user_prefix @ ''oC'' @ msg_not_authorized_suffix)
        \<and> error v \<noteq> error v')"
proof -
  let ?uC = "\<lparr>openid = ''oC'', uid = ''oC'', appid = None\<rparr>"
  let ?uD = "\<lparr>openid = ''oD'', uid = ''oD'', appid = None\<rparr>"
  have a: "snd (getUserFromRequest ex_env (header_event ''authorization'' ''Bearer tokC''))
      = Inr (Some ?uC)"
    by (simp add: fun_defs ex_defs comp_defs)
  have b: "snd (isUserAuthorized ex_env (Some (openid ?uC))) = Inr (JsBool False)"
    by (simp add: fun_defs ex_defs comp_defs)
  have c: "snd (getUserFromRequest ex_env (header_event ''authorization'' ''Bearer tokD''))
      = Inr (Some ?uD)"
    by (simp add: fun_defs ex_defs comp_defs)
  have d: "snd (isUserAuthorized ex_env (Some (openid ?uD))) = Inr (JsBool False)"
    by (simp add: fun_defs ex_defs comp_defs)
  have f: "\<not> js_truthy (JsBool False)" by simp
  show ?thesis
    using a b c d not_authorized_reason_echoes_openid[OF a b f c d f] by auto
qed

subsection \<open>The checker: isUserAuthorized\<close>

text \<open>
  Claim C3: for a subject that is not in the static list, when the query of the store
  fails, the checker does not throw and returns false, which is the membership in the
  static list. For a non-empty subject the run consists of the query and of one line
  written with \<^verbatim>\<open>console.error\<close> that carries the error of the store.
\<close>

theorem isUserAuthorized_store_failure:
  "oid \<notin> set (AUTHORIZED_USERS env) \<Longrightarrow> database env ''authorized_users'' = Inl e \<Longrightarrow>
   snd (isUserAuthorized env (Some oid)) = Inr (JsBool False) \<and>
   (oid \<noteq> [] \<longrightarrow>
      fst (isUserAuthorized env (Some oid)) =
        [DbGet ''authorized_users'' oid ''active'', ConsoleError msg_query_failed e])"
  by (simp add: isUserAuthorized_def collection_where_get_def comp_defs)

theorem isUserAuthorized_store_failure_witness:
  "''oB'' \<notin> set (AUTHORIZED_USERS ex_env_store_down) \<and>
   database ex_env_store_down ''authorized_users'' = Inl (JsError ''ECONNREFUSED'') \<and>
   isUserAuthorized ex_env_store_down (Some ''oB'') =
     ([DbGet ''authorized_users'' ''oB'' ''active'',
       ConsoleError msg_query_failed (JsError ''ECONNREFUSED'')], Inr (JsBool False))"
proof -
  have a: "''oB'' \<notin> set (AUTHORIZED_USERS ex_env_store_down)"
    by (simp add: ex_defs)
  have b: "database ex_env_store_down ''authorized_users'' = Inl (JsError ''ECONNREFUSED'')"
    by (simp add: ex_defs)
  show ?thesis
    using a b isUserAuthorized_store_failure[OF a b] by (simp add: prod_eq_iff)
qed

text \<open>
  Claim C6 says that the checker always returns a boolean, as the comment of lines 81 to
  85 does (\<^verbatim>\<open>@returns {boolean}\<close>). Line 106 does not: for a subject outside the static
  list, when the query resolves with a response that carries no \<^verbatim>\<open>data\<close>, the checker
  returns that missing \<^verbatim>\<open>data\<close>, which is \<^verbatim>\<open>undefined\<close> and no boolean.
\<close>

theorem isUserAuthorized_returns_undefined:
  "''oB'' \<notin> set (AUTHORIZED_USERS ex_env_no_data)
   \<and> database ex_env_no_data ''authorized_users'' = Inr None
   \<and> isUserAuthorized ex_env_no_data (Some ''oB'')
       = ([DbGet ''authorized_users'' ''oB'' ''active''], Inr JsUndefined)"
  by (simp add: fun_defs ex_defs comp_defs)

text \<open>
  The rest of what claim C6 says holds. The checker never throws. For \<^verbatim>\<open>null\<close> and for
  the empty string it returns false without any call. For a non-empty subject of the
  static list it returns true without any call. For a non-empty subject, when the query
  resolves with the matching documents, it returns the boolean that is true exactly when
  the subject is in the static list or the collection holds a document of that subject
  with status \<^verbatim>\<open>active\<close>. The value is a boolean in every case but the one above.
\<close>

lemma isUserAuthorized_contract:
  "(\<exists>r. snd (isUserAuthorized env a) = Inr r)
   \<and> isUserAuthorized env None = ([], Inr (JsBool False))
   \<and> isUserAuthorized env (Some []) = ([], Inr (JsBool False))
   \<and> (oid \<noteq> [] \<and> oid \<in> set (AUTHORIZED_USERS env) \<longrightarrow>
        isUserAuthorized env (Some oid) = ([], Inr (JsBool True)))
   \<and> (oid \<noteq> [] \<and> database env ''authorized_users'' = Inr (Some docs) \<longrightarrow>
        snd (isUserAuthorized env (Some oid)) =
          Inr (JsBool (oid \<in> set (AUTHORIZED_USERS env) \<or>
               (\<exists>d \<in> set docs. doc_openid d = oid \<and> doc_status d = ''active''))))
   \<and> (database env ''authorized_users'' \<noteq> Inr None \<longrightarrow>
        (\<exists>b. snd (isUserAuthorized env a) = Inr (JsBool b)))"
proof -
  have "\<exists>r. snd (isUserAuthorized env a) = Inr r"
    using isUserAuthorized_returns[of env a] by auto
  moreover have "isUserAuthorized env None = ([], Inr (JsBool False))"
    and "isUserAuthorized env (Some []) = ([], Inr (JsBool False))"
    by (simp_all add: isUserAuthorized_def ret_def)
  moreover have "oid \<noteq> [] \<and> oid \<in> set (AUTHORIZED_USERS env) \<longrightarrow>
        isUserAuthorized env (Some oid) = ([], Inr (JsBool True))"
    by (simp add: isUserAuthorized_def ret_def)
  moreover have "oid \<noteq> [] \<and> database env ''authorized_users'' = Inr (Some docs) \<longrightarrow>
        snd (isUserAuthorized env (Some oid)) =
          Inr (JsBool (oid \<in> set (AUTHORIZED_USERS env) \<or>
               (\<exists>d \<in> set docs. doc_openid d = oid \<and> doc_status d = ''active'')))"
    by (auto simp: isUserAuthorized_def collection_where_get_def comp_defs filter_empty_conv)
  moreover have "database env ''authorized_users'' \<noteq> Inr None \<longrightarrow>
        (\<exists>b. snd (isUserAuthorized env a) = Inr (JsBool b))"
    by (auto simp: isUserAuthorized_def collection_where_get_def comp_defs
        split: option.splits sum.splits)
  ultimately show ?thesis by blast
qed

lemma isUserAuthorized_contract_example:
  "isUserAuthorized ex_env (Some ''oXXXXX2'') = ([], Inr (JsBool True))
   \<and> database ex_env ''authorized_users'' = Inr (Some ex_docs)
   \<and> isUserAuthorized ex_env (Some ''oB'')
       = ([DbGet ''authorized_users'' ''oB'' ''active''], Inr (JsBool True))
   \<and> isUserAuthorized ex_env (Some ''oC'')
       = ([DbGet ''authorized_users'' ''oC'' ''active''], Inr (JsBool False))
   \<and> ''oC'' \<notin> set (AUTHORIZED_USERS ex_env)
   \<and> \<not> (\<exists>d \<in> set ex_docs. doc_openid d = ''oC'' \<and> doc_status d = ''active'')"
  by (simp add: fun_defs ex_defs comp_defs)

subsection \<open>The resolver: getUserFromRequest\<close>

text \<open>
  Claim C8: the resolver never throws, and every failure collapses to \<^verbatim>\<open>null\<close>. For
  every event and every behaviour of \<^verbatim>\<open>getWXContext\<close> and of the verifier it returns a
  user or \<^verbatim>\<open>null\<close>. It returns \<^verbatim>\<open>null\<close> when \<^verbatim>\<open>getWXContext\<close> throws, whatever the
  verifier does, and when there is no usable trusted context and the verifier throws on
  the token of the header. It returns a user only when a path succeeded: the trusted
  context has the \<^verbatim>\<open>openid\<close> of that user, or there is no usable trusted context, the
  header starts with \<^verbatim>\<open>Bearer\<close> and a space, and the verifier resolved its token to a
  result with the non-empty \<^verbatim>\<open>openid\<close> of that user.
\<close>

theorem getUserFromRequest_never_raises:
  "(\<exists>v. snd (getUserFromRequest env ev) = Inr v)
   \<and> (getWXContext env = Inl e \<longrightarrow> snd (getUserFromRequest env ev) = Inr None)
   \<and> (trusted_openid env = None \<and>
        verifyAccessToken env (substring (authHeader ev) 7) = Inl e' \<longrightarrow>
        snd (getUserFromRequest env ev) = Inr None)
   \<and> (snd (getUserFromRequest env ev) = Inr (Some u) \<longrightarrow>
        trusted_openid env = Some (openid u)
        \<or> (trusted_openid env = None \<and> startsWith (authHeader ev) ''Bearer '' \<and> openid u \<noteq> [] \<and>
            (\<exists>r. verifyAccessToken env (substring (authHeader ev) 7) = Inr (Some r) \<and>
                 res_openid r = Some (openid u))))"
proof -
  have total: "\<exists>v. snd (getUserFromRequest env ev) = Inr v"
    using getUserFromRequest_returns[of env ev] by auto
  have ctx: "getWXContext env = Inl e \<longrightarrow> snd (getUserFromRequest env ev) = Inr None"
    by (simp add: getUserFromRequest_context_throws)
  have ver: "trusted_openid env = None \<and>
        verifyAccessToken env (substring (authHeader ev) 7) = Inl e' \<longrightarrow>
        snd (getUserFromRequest env ev) = Inr None"
  proof (cases "getWXContext env")
    case (Inl x)
    then show ?thesis by (simp add: getUserFromRequest_context_throws)
  next
    case (Inr c)
    show ?thesis
      using getUserFromRequest_no_context[OF _ Inr, of ev]
        fromAuthorizationHeader_verifier_throws[of env ev e']
      by auto
  qed
  have only: "snd (getUserFromRequest env ev) = Inr (Some u) \<longrightarrow>
        trusted_openid env = Some (openid u)
        \<or> (trusted_openid env = None \<and> startsWith (authHeader ev) ''Bearer '' \<and> openid u \<noteq> [] \<and>
            (\<exists>r. verifyAccessToken env (substring (authHeader ev) 7) = Inr (Some r) \<and>
                 res_openid r = Some (openid u)))"
  proof (cases "trusted_openid env")
    case None
    show ?thesis
    proof (cases "getWXContext env")
      case (Inl x)
      then show ?thesis by (simp add: getUserFromRequest_context_throws)
    next
      case (Inr c)
      show ?thesis
        using None getUserFromRequest_no_context[OF None Inr, of ev]
          fromAuthorizationHeader_success[of env ev u]
        by auto
    qed
  next
    case (Some oid)
    then show ?thesis
      by (auto simp: trusted_openid_def getUserFromRequest_def comp_defs
          split: sum.splits option.splits if_splits)
  qed
  from total ctx ver only show ?thesis by blast
qed

theorem getUserFromRequest_never_raises_witness:
  "getWXContext ex_env_all_throw = Inl (JsError ''no context'')
   \<and> verifyAccessToken ex_env_all_throw ''tokB'' = Inl (JsError ''verifier down'')
   \<and> snd (getUserFromRequest ex_env_all_throw (header_event ''Authorization'' ''Bearer tokB''))
       = Inr None
   \<and> trusted_openid ex_env = None
   \<and> verifyAccessToken ex_env
         (substring (authHeader (header_event ''Authorization'' ''Bearer expired'')) 7)
       = Inl (JsError ''invalid token'')
   \<and> snd (getUserFromRequest ex_env (header_event ''Authorization'' ''Bearer expired''))
       = Inr None
   \<and> snd (getUserFromRequest ex_env (header_event ''Authorization'' ''Bearer tokB''))
       = Inr (Some \<lparr>openid = ''oB'', uid = ''uB'', appid = None\<rparr>)
   \<and> verifyAccessToken ex_env ''tokB''
       = Inr (Some \<lparr>res_openid = Some ''oB'', res_uid = Some ''uB'', res_appid = None\<rparr>)"
  using getUserFromRequest_never_raises[of ex_env_all_throw
      "header_event ''Authorization'' ''Bearer tokB''" "JsError ''no context''"]
    getUserFromRequest_never_raises[of ex_env
      "header_event ''Authorization'' ''Bearer expired''" _ "JsError ''invalid token''"]
    getUserFromRequest_never_raises[of ex_env
      "header_event ''Authorization'' ''Bearer tokB''" _ _
      "\<lparr>openid = ''oB'', uid = ''uB'', appid = None\<rparr>"]
  by (simp add: fun_defs ex_defs comp_defs)

text \<open>With every collaborator throwing, the outer \<^verbatim>\<open>catch\<close> logs and returns \<^verbatim>\<open>null\<close>.\<close>

lemma getUserFromRequest_all_throw_example:
  "getUserFromRequest ex_env_all_throw (header_event ''Authorization'' ''Bearer tokB'')
     = ([GetWXContext, ConsoleError msg_get_user_failed (JsError ''no context'')], Inr None)"
  by (simp add: fun_defs ex_defs comp_defs)

text \<open>
  Claim C9: when the trusted context has a non-empty \<^verbatim>\<open>OPENID\<close>, the resolver returns
  the user built from the context after the one call of \<^verbatim>\<open>getWXContext\<close>: the verifier
  is not called, and neither the event nor the verifier has any influence on the result.
\<close>

theorem trusted_context_wins:
  "getWXContext env = Inr (Some ctx) \<Longrightarrow> OPENID ctx = Some oid \<Longrightarrow> oid \<noteq> [] \<Longrightarrow>
   getUserFromRequest env ev =
     ([GetWXContext], Inr (Some \<lparr>openid = oid, uid = oid, appid = APPID ctx\<rparr>))
   \<and> getUserFromRequest (env\<lparr>verifyAccessToken := v'\<rparr>) ev' = getUserFromRequest env ev"
  by (simp add: getUserFromRequest_def comp_defs)

theorem trusted_context_wins_witness:
  "getWXContext (ex_env_trusted ''oXXXXX1'')
     = Inr (Some \<lparr>OPENID = Some ''oXXXXX1'', APPID = Some ''wx0''\<rparr>)
   \<and> snd (getUserFromRequest ex_env (header_event ''authorization'' ''Bearer tokB''))
       = Inr (Some \<lparr>openid = ''oB'', uid = ''uB'', appid = None\<rparr>)
   \<and> getUserFromRequest (ex_env_trusted ''oXXXXX1'')
         (header_event ''authorization'' ''Bearer tokB'')
       = ([GetWXContext],
          Inr (Some \<lparr>openid = ''oXXXXX1'', uid = ''oXXXXX1'', appid = Some ''wx0''\<rparr>))"
proof -
  have a: "getWXContext (ex_env_trusted ''oXXXXX1'')
      = Inr (Some \<lparr>OPENID = Some ''oXXXXX1'', APPID = Some ''wx0''\<rparr>)"
    by (simp add: ex_defs)
  have b: "snd (getUserFromRequest ex_env (header_event ''authorization'' ''Bearer tokB''))
       = Inr (Some \<lparr>openid = ''oB'', uid = ''uB'', appid = None\<rparr>)"
    by (simp add: fun_defs ex_defs comp_defs)
  show ?thesis
    using a b
      trusted_context_wins[OF a, of "''oXXXXX1''"
        "header_event ''authorization'' ''Bearer tokB''"]
    by simp
qed

text \<open>
  Claim C4, as the specification states it: the authorization header is found under any
  capitalization of its key. The module does not do that: with no usable trusted context
  and a token the verifier accepts, the key \<^verbatim>\<open>authorization\<close> resolves the user and the
  key \<^verbatim>\<open>AUTHORIZATION\<close> resolves nothing.
\<close>

theorem header_key_uppercase_counterexample:
  "trusted_openid ex_env = None
   \<and> snd (getUserFromRequest ex_env (header_event ''authorization'' ''Bearer tokB''))
       = Inr (Some \<lparr>openid = ''oB'', uid = ''uB'', appid = None\<rparr>)
   \<and> snd (getUserFromRequest ex_env (header_event ''AUTHORIZATION'' ''Bearer tokB''))
       = Inr None"
  by (simp add: fun_defs ex_defs comp_defs)

text \<open>
  Claim C4, amended: the resolver reads the header map at the two keys
  \<^verbatim>\<open>authorization\<close> and \<^verbatim>\<open>Authorization\<close> only. An event that carries a value under
  the one resolves as the event that carries it under the other, and an entry under any
  other key, whatever its capitalization, changes nothing.
\<close>

theorem header_key_two_spellings:
  "getUserFromRequest env (header_event ''Authorization'' v)
     = getUserFromRequest env (header_event ''authorization'' v)
   \<and> (key \<noteq> ''authorization'' \<and> key \<noteq> ''Authorization'' \<longrightarrow>
        getUserFromRequest env \<lparr>headers = Some (h(key \<mapsto> v))\<rparr>
          = getUserFromRequest env \<lparr>headers = Some h\<rparr>)"
proof -
  have "authHeader (header_event ''Authorization'' v)
      = authHeader (header_event ''authorization'' v)"
    by (simp add: authHeader_def header_event_def or_string_def)
  moreover have "key \<noteq> ''authorization'' \<and> key \<noteq> ''Authorization'' \<longrightarrow>
      authHeader \<lparr>headers = Some (h(key \<mapsto> v))\<rparr> = authHeader \<lparr>headers = Some h\<rparr>"
    by (simp add: authHeader_def)
  ultimately show ?thesis
    using getUserFromRequest_authHeader by blast
qed

theorem header_key_two_spellings_witness:
  "getUserFromRequest ex_env (header_event ''Authorization'' ''Bearer tokB'')
     = ([GetWXContext, VerifyAccessToken ''tokB''],
        Inr (Some \<lparr>openid = ''oB'', uid = ''uB'', appid = None\<rparr>))
   \<and> getUserFromRequest ex_env (header_event ''authorization'' ''Bearer tokB'')
     = ([GetWXContext, VerifyAccessToken ''tokB''],
        Inr (Some \<lparr>openid = ''oB'', uid = ''uB'', appid = None\<rparr>))
   \<and> ''AUTHORIZATION'' \<noteq> ''authorization'' \<and> ''AUTHORIZATION'' \<noteq> ''Authorization''
   \<and> getUserFromRequest ex_env
         \<lparr>headers = Some (Map.empty(''AUTHORIZATION'' \<mapsto> ''Bearer tokB''))\<rparr>
     = ([GetWXContext], Inr None)"
  using header_key_two_spellings[of ex_env "''Bearer tokB''" "''AUTHORIZATION''" Map.empty]
  by (simp add: fun_defs ex_defs comp_defs)

text \<open>
  Claim C5, as the specification states it: a header value that is not
  \<^verbatim>\<open>Bearer\<close>, one space and a non-empty token is treated as absent, and the verifier is
  not consulted. The module does not do that: the value \<^verbatim>\<open>Bearer\<close> with one space and
  nothing after it, and the value with two spaces before the token, both start with the
  seven characters that line 52 tests, so the verifier is called, with the empty token and
  with a token that begins with a space, and a verifier that accepts them makes the
  resolver return a user.
\<close>

theorem bearer_empty_token_counterexample:
  "trusted_openid ex_env_lenient = None
   \<and> authHeader (header_event ''Authorization'' ''Bearer '') = ''Bearer ''
   \<and> getUserFromRequest ex_env_lenient (header_event ''Authorization'' ''Bearer '')
       = ([GetWXContext, VerifyAccessToken ''''],
          Inr (Some \<lparr>openid = ''oB'', uid = ''oB'', appid = None\<rparr>))
   \<and> authHeader (header_event ''Authorization'' ''Bearer  tokB'') = ''Bearer  tokB''
   \<and> getUserFromRequest ex_env_lenient (header_event ''Authorization'' ''Bearer  tokB'')
       = ([GetWXContext, VerifyAccessToken '' tokB''],
          Inr (Some \<lparr>openid = ''oB'', uid = ''oB'', appid = None\<rparr>))"
  by (simp add: fun_defs ex_defs comp_defs)

text \<open>
  Claim C5, amended: with no usable trusted context, a header value that does not start
  with the seven characters \<^verbatim>\<open>Bearer\<close> and one space is treated as absent: the resolver
  returns \<^verbatim>\<open>null\<close> and the verifier is not called. A value that starts with them is
  handed to the verifier, the token being everything after the seventh character,
  whenever \<^verbatim>\<open>getWXContext\<close> did not throw.
\<close>

theorem bearer_prefix_decides:
  "trusted_openid env = None \<Longrightarrow>
   (\<not> startsWith (authHeader ev) ''Bearer '' \<longrightarrow>
      snd (getUserFromRequest env ev) = Inr None \<and>
      (\<forall>tok. VerifyAccessToken tok \<notin> set (fst (getUserFromRequest env ev))))
   \<and> (startsWith (authHeader ev) ''Bearer '' \<and> (\<exists>c. getWXContext env = Inr c) \<longrightarrow>
      VerifyAccessToken (substring (authHeader ev) 7)
        \<in> set (fst (getUserFromRequest env ev)))"
proof (cases "getWXContext env")
  case (Inl e)
  assume "trusted_openid env = None"
  show ?thesis using Inl by (simp add: getUserFromRequest_context_throws)
next
  case (Inr c)
  assume n: "trusted_openid env = None"
  show ?thesis
    using getUserFromRequest_no_context[OF n Inr, of ev]
      fromAuthorizationHeader_no_prefix[of ev env] fromAuthorizationHeader_prefix[of ev env]
    by auto
qed

theorem bearer_prefix_decides_witness:
  "trusted_openid ex_env = None
   \<and> \<not> startsWith (authHeader (header_event ''Authorization'' ''Token abc'')) ''Bearer ''
   \<and> getUserFromRequest ex_env (header_event ''Authorization'' ''Token abc'')
       = ([GetWXContext], Inr None)
   \<and> startsWith (authHeader (header_event ''Authorization'' ''Bearer '')) ''Bearer ''
   \<and> getWXContext ex_env = Inr (Some \<lparr>OPENID = None, APPID = None\<rparr>)
   \<and> VerifyAccessToken ''''
       \<in> set (fst (getUserFromRequest ex_env (header_event ''Authorization'' ''Bearer '')))"
proof -
  have n: "trusted_openid ex_env = None" by (simp add: fun_defs ex_defs)
  show ?thesis
    using n bearer_prefix_decides[OF n, of "header_event ''Authorization'' ''Token abc''"]
      bearer_prefix_decides[OF n, of "header_event ''Authorization'' ''Bearer ''"]
    by (simp add: fun_defs ex_defs comp_defs)
qed

end
